theory Spec2Isabelle
  imports Main "HOL-Library.Sublist"
begin

section \<open>JavaScript values and library calls used by the importer\<close>

text \<open>
  The importer is a TypeScript program.  A call that can throw is modelled with a result
  of type \<open>error + 'a\<close>: \<open>Inl\<close> is the exception that escapes, \<open>Inr\<close> the value
  returned.  \<open>TypeError\<close> is what reading a property of \<open>null\<close> or \<open>undefined\<close>
  raises; \<open>ConversionError\<close> stands for whatever the markdown library throws.
\<close>

datatype error = TypeError | ConversionError

definition and_then :: "error + 'a \<Rightarrow> ('a \<Rightarrow> error + 'b) \<Rightarrow> error + 'b" where
  "and_then r f = (case r of Inl e \<Rightarrow> Inl e | Inr v \<Rightarrow> f v)"

text \<open>\<open>Array.prototype.map\<close> with a callback that may throw: the first exception escapes.\<close>

fun array_map :: "('a \<Rightarrow> error + 'b) \<Rightarrow> 'a list \<Rightarrow> error + 'b list" where
  "array_map f [] = Inr []"
| "array_map f (x # xs) =
     and_then (f x) (\<lambda>y. and_then (array_map f xs) (\<lambda>ys. Inr (y # ys)))"

text \<open>
  A plain object parsed from YAML is a list of its own entries in \<open>Object.keys\<close> order;
  the keys of an object are pairwise distinct.  \<open>property m k\<close> is \<open>m[k]\<close>
  (\<open>None\<close> for \<open>undefined\<close>); inherited properties are not modelled.
\<close>

type_synonym table = "(string \<times> string) list"

definition Object_values :: "table \<Rightarrow> string list" where
  "Object_values m = map snd m"

definition property :: "table \<Rightarrow> string \<Rightarrow> string option" where
  "property m k = map_of m k"

text \<open>Truthiness of a value that is a string or \<open>undefined\<close>: the empty string is falsy.\<close>

definition truthy :: "string option \<Rightarrow> bool" where
  "truthy v = (case v of None \<Rightarrow> False | Some s \<Rightarrow> s \<noteq> [])"

text \<open>\<open>a || b\<close> for \<open>a\<close> a string or \<open>undefined\<close> and \<open>b\<close> a string.\<close>

definition js_or :: "string option \<Rightarrow> string \<Rightarrow> string" where
  "js_or a b = (case a of None \<Rightarrow> b | Some s \<Rightarrow> if s \<noteq> [] then s else b)"

text \<open>\<open>s.split(sep)\<close> for a one-character separator, and \<open>parts.join(sep)\<close>.\<close>

fun js_split :: "char \<Rightarrow> string \<Rightarrow> string list" where
  "js_split sep [] = [[]]"
| "js_split sep (c # cs) =
     (if c = sep then [] # js_split sep cs
      else (case js_split sep cs of [] \<Rightarrow> [[c]] | w # ws \<Rightarrow> (c # w) # ws))"

fun js_join :: "string \<Rightarrow> string list \<Rightarrow> string" where
  "js_join sep [] = []"
| "js_join sep [w] = w"
| "js_join sep (w # v # ws) = w @ sep @ js_join sep (v # ws)"

text \<open>
  \<open>s.replace(pattern, '')\<close> with a string pattern: the first occurrence of the pattern,
  wherever it stands, is removed; an empty pattern matches at position 0.
\<close>

fun js_replace_empty :: "string \<Rightarrow> string \<Rightarrow> string" where
  "js_replace_empty [] pattern = []"
| "js_replace_empty (c # cs) pattern =
     (if prefix pattern (c # cs) then drop (length pattern) (c # cs)
      else c # js_replace_empty cs pattern)"

text \<open>
  The template literal \<open>${n}\<close> and the property key of a number \<open>n\<close>: issue numbers
  are non-negative integers, which JavaScript prints in plain decimal (below \<open>10\<^sup>2\<^sup>1\<close>,
  far above any issue number).
\<close>

definition digit :: "nat \<Rightarrow> char" where
  "digit d = ''0123456789'' ! d"

fun number_toString :: "nat \<Rightarrow> string" where
  "number_toString n =
     (if n < 10 then [digit n] else number_toString (n div 10) @ [digit (n mod 10)])"

declare number_toString.simps [simp del]

text \<open>\<open>[...new Set(xs)]\<close>: the distinct elements in order of first insertion.\<close>

definition Set_spread :: "'a list \<Rightarrow> 'a list" where
  "Set_spread xs = foldl (\<lambda>s x. if x \<in> set s then s else s @ [x]) [] xs"

section \<open>Data model\<close>

text \<open>
  The interfaces of the source, one record each.  Field names carry a prefix for their
  interface, since several interfaces share names (\<open>body\<close>, \<open>labels\<close>, \<open>key\<close>).
  An optional or nullable field is an \<open>option\<close>.
\<close>

record GithubUser =
  gu_login :: string

record GithubLabel =
  gl_name :: string

record GithubMilestone =
  gm_title :: string

record GithubComment =
  gc_body :: string
  gc_user :: GithubUser
  gc_created_at :: string
  gc_issue_url :: string

datatype GithubState = Open | Closed

record GithubIssue =
  gi_labels :: "GithubLabel list"
  gi_number :: nat
  gi_state :: GithubState
  gi_user :: GithubUser
  gi_assignee :: "GithubUser option"
  gi_created_at :: string
  gi_updated_at :: string
  gi_title :: string
  gi_body :: string
  gi_milestone :: "GithubMilestone option"

record JiraComment =
  jc_body :: string
  jc_author :: string
  jc_created :: string

record JiraCustomField =
  jf_fieldName :: string
  jf_fieldType :: string
  jf_value :: "string list"

record JiraIssue =
  ji_key :: string
  ji_status :: string
  ji_resolution :: "string option"
  ji_reporter :: "string option"
  ji_assignee :: "string option"
  ji_fixedVersions :: "string list"
  ji_created :: string
  ji_updated :: string
  ji_summary :: string
  ji_description :: string
  ji_issueType :: string
  ji_priority :: string
  ji_labels :: "string list"
  ji_customFieldValues :: "JiraCustomField list"
  ji_comments :: "JiraComment list"

record JiraProject =
  jp_name :: string
  jp_externalName :: string
  jp_key :: string
  jp_issues :: "JiraIssue list"
  jp_versions :: "string list"

record JiraData =
  jd_projects :: "JiraProject list"

record GithubData =
  gd_githubIssues :: "GithubIssue list"
  gd_githubComments :: "GithubComment list option"

text \<open>
  The configuration read from \<open>config.yaml\<close>.  Every key the program reads without a
  default may be missing (\<open>None\<close>).
\<close>

record FieldSpec =
  fs_fieldName :: string
  fs_fieldType :: string
  fs_map :: "table option"
  fs_prefixes :: "string list option"

record Config =
  cfg_projectKey :: string
  cfg_repo :: string
  cfg_priorityMap :: "table option"
  cfg_defaultPriority :: "string option"
  cfg_issueTypeMap :: "table option"
  cfg_defaultIssueType :: "string option"
  cfg_userMap :: "table option"
  cfg_customFields :: "FieldSpec list option"

definition defaultPriority :: "Config \<Rightarrow> string" where
  "defaultPriority cfg = (case cfg_defaultPriority cfg of None \<Rightarrow> ''Medium'' | Some d \<Rightarrow> d)"

definition defaultIssueType :: "Config \<Rightarrow> string" where
  "defaultIssueType cfg = (case cfg_defaultIssueType cfg of None \<Rightarrow> ''Story'' | Some d \<Rightarrow> d)"

section \<open>The mapping functions\<close>

text \<open>
  \<open>mdToWiki\<close>: the markdown library is a parameter \<open>conv\<close> that may throw.  The
  \<open>try\<close> branch returns what the library returns; the \<open>catch\<close> branch logs one
  line, which quotes the input, and returns the input.  The result is paired with the
  lines written to the console; the progress messages of the other functions are not
  modelled.
\<close>

datatype log_line = FailedToConvert string

definition mdToWiki ::
  "(string \<Rightarrow> error + string) \<Rightarrow> string \<Rightarrow> (error + string) \<times> log_line list" where
  "mdToWiki conv md =
     (case conv md of
        Inr wiki \<Rightarrow> (Inr wiki, [])
      | Inl e \<Rightarrow> (Inr md, [FailedToConvert md]))"

definition mapDate :: "string \<Rightarrow> string" where
  "mapDate githubDate = butlast githubDate @ ''+00:00''"

definition mapGithubCommentsToJiraComments ::
  "(string \<Rightarrow> error + string) \<Rightarrow> GithubComment list \<Rightarrow> error + JiraComment list" where
  "mapGithubCommentsToJiraComments conv githubComments =
     array_map (\<lambda>comment.
       and_then (fst (mdToWiki conv (gc_body comment))) (\<lambda>body.
         Inr \<lparr> jc_body = body,
               jc_author = gu_login (gc_user comment),
               jc_created = mapDate (gc_created_at comment) \<rparr>)) githubComments"

text \<open>
  \<open>mapLabelToValue\<close> assigns to \<open>githubIssue.labels\<close>; the model returns the issue
  as it is left.  The reducer runs over \<open>Object.keys(map)\<close>; \<open>map[githubLabel]\<close>
  for such a key is the second component of its entry.
\<close>

definition label_reducer :: "string \<times> GithubIssue \<Rightarrow> string \<times> string \<Rightarrow> string \<times> GithubIssue" where
  "label_reducer acc entry =
     (case acc of (currentValue, githubIssue) \<Rightarrow>
      case entry of (githubLabel, mapped) \<Rightarrow>
        let githubLabelNames = map gl_name (gi_labels githubIssue) in
        if githubLabel \<in> set githubLabelNames
        then (mapped,
              githubIssue\<lparr> gi_labels :=
                filter (\<lambda>label. gl_name label \<noteq> githubLabel) (gi_labels githubIssue) \<rparr>)
        else (currentValue, githubIssue))"

definition mapLabelToValue :: "GithubIssue \<Rightarrow> table option \<Rightarrow> string \<Rightarrow> string \<times> GithubIssue" where
  "mapLabelToValue githubIssue tbl defaultValue =
     (case tbl of
        None \<Rightarrow> (defaultValue, githubIssue)
      | Some m \<Rightarrow>
          if length (Object_values m) = 0 then (defaultValue, githubIssue)
          else foldl label_reducer (defaultValue, githubIssue) m)"

text \<open>
  \<open>mapLabelsToCustomFields\<close>: \<open>customFieldValue\<close> is the \<open>value\<close> expression of the
  callback given to \<open>customFields.map\<close>.  It only reads its argument.
\<close>

definition customFieldValue :: "FieldSpec \<Rightarrow> GithubLabel list \<Rightarrow> error + string list" where
  "customFieldValue spec githubLabels =
     (case fs_map spec of
        Some m \<Rightarrow>
          Inr (foldl (\<lambda>acc githubLabel.
                 if truthy (property m githubLabel)
                 then acc @ (case property m githubLabel of None \<Rightarrow> [] | Some v \<Rightarrow> [v])
                 else acc)
               [] (map gl_name githubLabels))
      | None \<Rightarrow>
          (case fs_prefixes spec of
             None \<Rightarrow> if githubLabels = [] then Inr [] else Inl TypeError
           | Some pfxs \<Rightarrow>
               Inr (map (\<lambda>label. js_join ''_'' (js_split (CHR '' '') label))
                     (foldl (\<lambda>acc label.
                              acc @ [foldl (\<lambda>result p. js_replace_empty result p) label pfxs])
                        []
                        (filter (\<lambda>label. list_ex (\<lambda>p. prefix p label) pfxs)
                           (map gl_name githubLabels))))))"

definition mapLabelsToCustomFields :: "Config \<Rightarrow> GithubLabel list \<Rightarrow> error + JiraCustomField list" where
  "mapLabelsToCustomFields cfg githubLabels =
     (case cfg_customFields cfg of
        None \<Rightarrow> Inl TypeError
      | Some customFields \<Rightarrow>
          if length customFields = 0 then Inr []
          else array_map (\<lambda>spec.
                 and_then (customFieldValue spec githubLabels) (\<lambda>v.
                   Inr \<lparr> jf_fieldName = fs_fieldName spec,
                         jf_fieldType = fs_fieldType spec,
                         jf_value = v \<rparr>)) customFields)"

text \<open>
  \<open>mapGithubIssueToJiraIssue\<close>: the fields of the object literal are evaluated in the
  order written, so the two classifications run before \<open>labels\<close> is read.  The result
  is the Jira issue together with the source issue as the call leaves it.
\<close>

definition mapGithubIssueToJiraIssue ::
  "Config \<Rightarrow> (string \<Rightarrow> error + string) \<Rightarrow> GithubIssue \<Rightarrow> GithubComment list option
     \<Rightarrow> error + (JiraIssue \<times> GithubIssue)" where
  "mapGithubIssueToJiraIssue cfg conv issue issueComments =
     (case cfg_userMap cfg of
        None \<Rightarrow> Inl TypeError
      | Some userMap \<Rightarrow>
          and_then (fst (mdToWiki conv (gi_body issue))) (\<lambda>description.
            case mapLabelToValue issue (cfg_issueTypeMap cfg) (defaultIssueType cfg) of
              (issueType, issue1) \<Rightarrow>
            case mapLabelToValue issue1 (cfg_priorityMap cfg) (defaultPriority cfg) of
              (priority, issue2) \<Rightarrow>
            and_then (mapLabelsToCustomFields cfg (gi_labels issue2)) (\<lambda>customFieldValues.
            and_then (case issueComments of
                        None \<Rightarrow> Inr []
                      | Some cs \<Rightarrow> mapGithubCommentsToJiraComments conv cs) (\<lambda>comments.
              Inr (\<lparr> ji_key = cfg_projectKey cfg @ ''-'' @ number_toString (gi_number issue),
                     ji_status = ''To Do'',
                     ji_resolution = (if gi_state issue = Closed then Some ''Fixed'' else None),
                     ji_reporter = property userMap (gu_login (gi_user issue)),
                     ji_assignee =
                       (case gi_assignee issue of
                          None \<Rightarrow> None
                        | Some a \<Rightarrow> Some (js_or (property userMap (gu_login a)) (gu_login a))),
                     ji_fixedVersions =
                       (case gi_milestone issue of None \<Rightarrow> [] | Some m \<Rightarrow> [gm_title m]),
                     ji_created = mapDate (gi_created_at issue),
                     ji_updated = mapDate (gi_updated_at issue),
                     ji_summary = gi_title issue,
                     ji_description = description,
                     ji_issueType = issueType,
                     ji_priority = priority,
                     ji_labels = map gl_name (gi_labels issue2),
                     ji_customFieldValues = customFieldValues,
                     ji_comments = comments \<rparr>,
                   issue2)))))"

definition issueNumber :: "GithubComment \<Rightarrow> string" where
  "issueNumber comment = last (js_split (CHR ''/'') (gc_issue_url comment))"

text \<open>The reducer of \<open>createCommentDictionary\<close> and the function itself.\<close>

definition dictionary_reducer ::
  "(string \<Rightarrow> GithubComment list option) \<Rightarrow> GithubComment
     \<Rightarrow> (string \<Rightarrow> GithubComment list option)" where
  "dictionary_reducer dictionary comment =
     dictionary (issueNumber comment \<mapsto>
       (case dictionary (issueNumber comment) of
          Some existing \<Rightarrow> existing @ [comment]
        | None \<Rightarrow> [comment]))"

definition createCommentDictionary ::
  "GithubComment list option \<Rightarrow> error + (string \<Rightarrow> GithubComment list option)" where
  "createCommentDictionary githubComments =
     (case githubComments of
        None \<Rightarrow> Inl TypeError
      | Some cs \<Rightarrow> Inr (foldl dictionary_reducer Map.empty cs))"

definition mapGithubIssuesToJiraIssues ::
  "Config \<Rightarrow> (string \<Rightarrow> error + string) \<Rightarrow> GithubIssue list
     \<Rightarrow> (string \<Rightarrow> GithubComment list option) \<Rightarrow> error + JiraIssue list" where
  "mapGithubIssuesToJiraIssues cfg conv issues commentsDictionary =
     array_map (\<lambda>issue.
       and_then
         (mapGithubIssueToJiraIssue cfg conv issue
            (commentsDictionary (number_toString (gi_number issue))))
         (\<lambda>r. Inr (fst r))) issues"

definition mapGithubDataToJiraData ::
  "Config \<Rightarrow> (string \<Rightarrow> error + string) \<Rightarrow> GithubData \<Rightarrow> error + JiraData" where
  "mapGithubDataToJiraData cfg conv githubData =
     and_then (createCommentDictionary (gd_githubComments githubData)) (\<lambda>commentDictionary.
     and_then (mapGithubIssuesToJiraIssues cfg conv (gd_githubIssues githubData) commentDictionary)
       (\<lambda>issues.
          Inr \<lparr> jd_projects =
                  [\<lparr> jp_name = cfg_repo cfg,
                     jp_externalName = cfg_repo cfg,
                     jp_key = cfg_projectKey cfg,
                     jp_issues = issues,
                     jp_versions = Set_spread (concat (map ji_fixedVersions issues)) \<rparr>] \<rparr>))"

section \<open>Characterisations\<close>

text \<open>
  The value of the last entry of a table whose key is among the given label names, and
  the default when there is none.
\<close>

definition last_match :: "string list \<Rightarrow> table \<Rightarrow> string \<Rightarrow> string" where
  "last_match names m d =
     (case rev (filter (\<lambda>e. fst e \<in> set names) m) of [] \<Rightarrow> d | e # _ \<Rightarrow> snd e)"

text \<open>
  A configuration under which no property of a missing value is read: the user map and
  the custom field list are present, and every field specification has a map or prefixes.
\<close>

definition spec_ok :: "FieldSpec \<Rightarrow> bool" where
  "spec_ok spec = (fs_map spec \<noteq> None \<or> fs_prefixes spec \<noteq> None)"

definition config_ok :: "Config \<Rightarrow> bool" where
  "config_ok cfg =
     (cfg_userMap cfg \<noteq> None \<and>
      (case cfg_customFields cfg of None \<Rightarrow> False | Some specs \<Rightarrow> list_all spec_ok specs))"

text \<open>The source issue as the two classifications of the issue mapper leave it.\<close>

definition classified :: "Config \<Rightarrow> GithubIssue \<Rightarrow> GithubIssue" where
  "classified cfg issue =
     snd (mapLabelToValue
            (snd (mapLabelToValue issue (cfg_issueTypeMap cfg) (defaultIssueType cfg)))
            (cfg_priorityMap cfg) (defaultPriority cfg))"

text \<open>
  The value list of a field specification with prefixes, in the words of the
  specification: the label names that start with one of the prefixes, in input order,
  each with every prefix replaced in turn and then every space turned into an underscore.
\<close>

definition spec_prefix_values :: "string list \<Rightarrow> string list \<Rightarrow> string list" where
  "spec_prefix_values pfxs names =
     map (\<lambda>label. map (\<lambda>c. if c = CHR '' '' then CHR ''_'' else c)
                     (foldl js_replace_empty label pfxs))
       (filter (\<lambda>label. \<exists>p \<in> set pfxs. prefix p label) names)"


section \<open>Example inputs\<close>

definition example_issue :: "nat \<Rightarrow> string list \<Rightarrow> GithubIssue" where
  "example_issue n names =
     \<lparr> gi_labels = map (\<lambda>s. \<lparr> gl_name = s \<rparr>) names,
       gi_number = n,
       gi_state = Closed,
       gi_user = \<lparr> gu_login = ''alice'' \<rparr>,
       gi_assignee = Some \<lparr> gu_login = ''bob'' \<rparr>,
       gi_created_at = ''2021-01-01T00:00:00Z'',
       gi_updated_at = ''2021-01-02T00:00:00Z'',
       gi_title = ''Crash on start'',
       gi_body = ''It crashes.'',
       gi_milestone = Some \<lparr> gm_title = ''v1'' \<rparr> \<rparr>"

definition example_table :: table where
  "example_table = [(''bug'', ''Bug''), (''feature'', ''Story'')]"

definition example_config :: Config where
  "example_config =
     \<lparr> cfg_projectKey = ''PRJ'',
       cfg_repo = ''tracker'',
       cfg_priorityMap = Some [(''urgent'', ''High'')],
       cfg_defaultPriority = None,
       cfg_issueTypeMap = Some example_table,
       cfg_defaultIssueType = None,
       cfg_userMap = Some [(''alice'', ''alice.jira''), (''bob'', [])],
       cfg_customFields =
         Some [\<lparr> fs_fieldName = ''Team'', fs_fieldType = ''labels'',
                  fs_map = None, fs_prefixes = Some [''team-''] \<rparr>] \<rparr>"

text \<open>A stand-in for the markdown library: it throws on the empty string.\<close>

definition example_converter :: "string \<Rightarrow> error + string" where
  "example_converter md = (if md = [] then Inl ConversionError else Inr (''{noformat}'' @ md))"

definition example_labels :: "string list" where
  "example_labels = [''team-backend infra'', ''feature'', ''bug'', ''urgent'', ''docs'']"

definition example_comment :: "string \<Rightarrow> string \<Rightarrow> GithubComment" where
  "example_comment url text =
     \<lparr> gc_body = text,
       gc_user = \<lparr> gu_login = ''carol'' \<rparr>,
       gc_created_at = ''2021-01-03T00:00:00Z'',
       gc_issue_url = url \<rparr>"

definition example_jira :: JiraIssue where
  "example_jira =
     \<lparr> ji_key = ''PRJ-42'',
       ji_status = ''To Do'',
       ji_resolution = Some ''Fixed'',
       ji_reporter = Some ''alice.jira'',
       ji_assignee = Some ''bob'',
       ji_fixedVersions = [''v1''],
       ji_created = ''2021-01-01T00:00:00+00:00'',
       ji_updated = ''2021-01-02T00:00:00+00:00'',
       ji_summary = ''Crash on start'',
       ji_description = ''{noformat}It crashes.'',
       ji_issueType = ''Story'',
       ji_priority = ''High'',
       ji_labels = [''team-backend infra'', ''docs''],
       ji_customFieldValues =
         [\<lparr> jf_fieldName = ''Team'', jf_fieldType = ''labels'',
            jf_value = [''backend_infra''] \<rparr>],
       ji_comments = [] \<rparr>"

definition example_comments :: "GithubComment list" where
  "example_comments =
     [example_comment ''https://api.github.com/repos/o/r/issues/42'' ''first'',
      example_comment ''https://api.github.com/repos/o/r/issues/7'' ''second'',
      example_comment ''https://api.github.com/repos/o/r/issues/42'' ''third'']"

definition example_data :: GithubData where
  "example_data =
     \<lparr> gd_githubIssues =
         [example_issue 42 example_labels,
          example_issue 7 [],
          (example_issue 8 [])\<lparr> gi_milestone := Some \<lparr> gm_title = ''v2'' \<rparr> \<rparr>,
          (example_issue 9 [])\<lparr> gi_milestone := None \<rparr>],
       gd_githubComments = Some example_comments \<rparr>"

section \<open>Library functions\<close>

lemma and_then_Inr_iff:
  "and_then r f = Inr y \<longleftrightarrow> (\<exists>v. r = Inr v \<and> f v = Inr y)"
  by (cases r) (simp_all add: and_then_def)

lemma array_map_Inr:
  "array_map f xs = Inr ys \<Longrightarrow> list_all2 (\<lambda>x y. f x = Inr y) xs ys"
proof (induction xs arbitrary: ys)
  case Nil
  then show ?case by simp
next
  case (Cons x xs)
  from Cons.prems obtain y ys' where "f x = Inr y" "array_map f xs = Inr ys'" "ys = y # ys'"
    by (auto simp: and_then_Inr_iff)
  with Cons.IH show ?case by simp
qed

lemma array_map_total:
  "(\<And>x. x \<in> set xs \<Longrightarrow> \<exists>y. f x = Inr y) \<Longrightarrow> \<exists>ys. array_map f xs = Inr ys"
proof (induction xs)
  case Nil
  show ?case by simp
next
  case (Cons x xs)
  from Cons.prems obtain y where "f x = Inr y" by auto
  moreover from Cons obtain ys where "array_map f xs = Inr ys" by auto
  ultimately show ?case by (simp add: and_then_def)
qed

lemma digit_inj: "a < 10 \<Longrightarrow> b < 10 \<Longrightarrow> digit a = digit b \<Longrightarrow> a = b"
proof -
  assume a: "a < 10" and b: "b < 10" and eq: "digit a = digit b"
  have d: "distinct ''0123456789''" by simp
  have "length ''0123456789'' = 10" by simp
  with a b eq d show "a = b"
    unfolding digit_def by (metis nth_eq_iff_index_eq)
qed

lemma number_toString_nonempty: "number_toString n \<noteq> []"
  by (subst number_toString.simps) simp

lemma number_toString_inj: "number_toString n = number_toString m \<Longrightarrow> n = m"
proof (induction n arbitrary: m rule: number_toString.induct)
  case (1 n)
  show ?case
  proof (cases "n < 10")
    case small: True
    show ?thesis
    proof (cases "m < 10")
      case True
      with small "1.prems" have "digit n = digit m"
        by (simp add: number_toString.simps [of n] number_toString.simps [of m])
      with small True show ?thesis by (rule digit_inj)
    next
      case False
      with small "1.prems" have "number_toString (m div 10) = []"
        by (simp add: number_toString.simps [of n] number_toString.simps [of m])
      then show ?thesis by (simp add: number_toString_nonempty)
    qed
  next
    case big: False
    show ?thesis
    proof (cases "m < 10")
      case True
      with big "1.prems" have "number_toString (n div 10) = []"
        by (simp add: number_toString.simps [of n] number_toString.simps [of m])
      then show ?thesis by (simp add: number_toString_nonempty)
    next
      case False
      with big "1.prems" have init: "number_toString (n div 10) = number_toString (m div 10)"
        and lst: "digit (n mod 10) = digit (m mod 10)"
        by (simp_all add: number_toString.simps [of n] number_toString.simps [of m])
      from "1.IH" [OF big init] have q: "n div 10 = m div 10" .
      from lst have r: "n mod 10 = m mod 10" by (intro digit_inj) simp_all
      from q r show ?thesis by (metis div_mult_mod_eq)
    qed
  qed
qed

lemma js_split_nonempty: "js_split sep s \<noteq> []"
  by (induction s) (auto split: list.splits)

lemma js_join_Cons:
  "ws \<noteq> [] \<Longrightarrow> js_join sep (w # ws) = w @ sep @ js_join sep ws"
  by (cases ws) simp_all

lemma js_join_Cons_Cons:
  "js_join sep ((c # w) # ws) = c # js_join sep (w # ws)"
  by (cases ws) simp_all

lemma split_join_replaces:
  "js_join [r] (js_split sep s) = map (\<lambda>c. if c = sep then r else c) s"
proof (induction s)
  case Nil
  show ?case by simp
next
  case (Cons c s)
  show ?case
  proof (cases "c = sep")
    case True
    then show ?thesis
      using Cons.IH by (simp add: js_join_Cons js_split_nonempty)
  next
    case False
    obtain w ws where sp: "js_split sep s = w # ws"
      using js_split_nonempty [of sep s] by (cases "js_split sep s") auto
    with False Cons.IH show ?thesis
      by (simp add: js_join_Cons_Cons)
  qed
qed




lemma Set_spread_aux:
  "distinct acc \<Longrightarrow>
     distinct (foldl (\<lambda>s x. if x \<in> set s then s else s @ [x]) acc xs) \<and>
     set (foldl (\<lambda>s x. if x \<in> set s then s else s @ [x]) acc xs) = set acc \<union> set xs"
  by (induction xs arbitrary: acc) auto

lemma Set_spread_distinct: "distinct (Set_spread xs)"
  using Set_spread_aux [of "[]" xs] by (simp add: Set_spread_def)

lemma Set_spread_set: "set (Set_spread xs) = set xs"
  using Set_spread_aux [of "[]" xs] by (simp add: Set_spread_def)

section \<open>Label Classifier\<close>

lemma label_reducer_labels:
  "snd (label_reducer (v, i) (k, w)) =
     i\<lparr> gi_labels := filter (\<lambda>l. gl_name l \<noteq> k) (gi_labels i) \<rparr>"
proof (cases "k \<in> set (map gl_name (gi_labels i))")
  case True
  then show ?thesis by (simp add: label_reducer_def)
next
  case False
  then have "filter (\<lambda>l. gl_name l \<noteq> k) (gi_labels i) = gi_labels i"
    by (auto simp: filter_id_conv)
  with False show ?thesis by (simp add: label_reducer_def)
qed

lemma label_reducer_value:
  "fst (label_reducer (v, i) (k, w)) =
     (if k \<in> set (map gl_name (gi_labels i)) then w else v)"
  by (simp add: label_reducer_def)

lemma foldl_label_reducer_labels:
  "snd (foldl label_reducer (v, i) m) =
     i\<lparr> gi_labels := filter (\<lambda>l. gl_name l \<notin> set (map fst m)) (gi_labels i) \<rparr>"
proof (induction m rule: rev_induct)
  case Nil
  show ?case by simp
next
  case (snoc e m)
  obtain k w where e: "e = (k, w)" by (cases e)
  obtain v' i' where st: "foldl label_reducer (v, i) m = (v', i')"
    by (cases "foldl label_reducer (v, i) m")
  from snoc st have i': "i' = i\<lparr> gi_labels := filter (\<lambda>l. gl_name l \<notin> set (map fst m)) (gi_labels i) \<rparr>"
    by simp
  have "snd (foldl label_reducer (v, i) (m @ [e])) = snd (label_reducer (v', i') (k, w))"
    by (simp add: st e)
  also have "\<dots> = i'\<lparr> gi_labels := filter (\<lambda>l. gl_name l \<noteq> k) (gi_labels i') \<rparr>"
    by (rule label_reducer_labels)
  also have "\<dots> = i\<lparr> gi_labels := filter (\<lambda>l. gl_name l \<notin> set (map fst (m @ [e]))) (gi_labels i) \<rparr>"
    by (simp add: i' e conj_commute)
  finally show ?case .
qed

lemma last_match_snoc:
  "last_match names (m @ [(k, w)]) d = (if k \<in> set names then w else last_match names m d)"
  by (simp add: last_match_def)

lemma foldl_label_reducer_value:
  "distinct (map fst m) \<Longrightarrow>
   fst (foldl label_reducer (v, i) m) = last_match (map gl_name (gi_labels i)) m v"
proof (induction m rule: rev_induct)
  case Nil
  show ?case by (simp add: last_match_def)
next
  case (snoc e m)
  obtain k w where e: "e = (k, w)" by (cases e)
  obtain v' i' where st: "foldl label_reducer (v, i) m = (v', i')"
    by (cases "foldl label_reducer (v, i) m")
  from snoc.prems e have dm: "distinct (map fst m)" and fresh: "k \<notin> set (map fst m)"
    by auto
  from snoc.IH [OF dm] st have v': "v' = last_match (map gl_name (gi_labels i)) m v"
    by simp
  from foldl_label_reducer_labels [of v i m] st
  have i': "gi_labels i' = filter (\<lambda>l. gl_name l \<notin> set (map fst m)) (gi_labels i)"
    by simp
  have present: "k \<in> set (map gl_name (gi_labels i')) \<longleftrightarrow> k \<in> set (map gl_name (gi_labels i))"
    using fresh by (auto simp: i')
  have "fst (foldl label_reducer (v, i) (m @ [e])) = fst (label_reducer (v', i') (k, w))"
    by (simp add: st e)
  also have "\<dots> = (if k \<in> set (map gl_name (gi_labels i)) then w else v')"
    using present by (simp add: label_reducer_value)
  also have "\<dots> = last_match (map gl_name (gi_labels i)) (m @ [e]) v"
    by (simp only: e last_match_snoc v')
  finally show ?case .
qed

text \<open>
  C1 (as stated).  With the table \<open>bug \<mapsto> Bug, feature \<mapsto> Story\<close>, default
  \<open>Story\<close> and labels \<open>feature, bug\<close>, the claim expects the value \<open>Bug\<close> and the
  label \<open>feature\<close> to remain.  The reducer visits every key: it returns \<open>Story\<close> (the
  value of the later key \<open>feature\<close>) and leaves no label.
\<close>

theorem classifier_first_match_counterexample:
  "mapLabelToValue (example_issue 1 [''feature'', ''bug'']) (Some example_table) ''Story''
     = (''Story'', example_issue 1 [])
   \<and> mapLabelToValue (example_issue 1 [''feature'', ''bug'']) (Some example_table) ''Story''
     \<noteq> (''Bug'', example_issue 1 [''feature''])"
  by (simp add: mapLabelToValue_def Object_values_def example_table_def label_reducer_def
      example_issue_def)

text \<open>
  C1 (amended).  For a non-empty table, classification returns the mapped value of the
  last table key, in table order, that is among the issue's label names (the default when
  there is none), and removes from the issue every label whose name is a key of the
  table; labels that match no key remain.
\<close>

theorem mapLabelToValue_last_match:
  assumes "m \<noteq> []" and "distinct (map fst m)"
  shows "mapLabelToValue issue (Some m) d =
           (last_match (map gl_name (gi_labels issue)) m d,
            issue\<lparr> gi_labels := filter (\<lambda>l. gl_name l \<notin> set (map fst m)) (gi_labels issue) \<rparr>)"
proof -
  have "mapLabelToValue issue (Some m) d = foldl label_reducer (d, issue) m"
    using assms(1) by (simp add: mapLabelToValue_def Object_values_def)
  then show ?thesis
    using foldl_label_reducer_value [OF assms(2), of d issue]
      foldl_label_reducer_labels [of d issue m]
    by (simp add: prod_eq_iff)
qed

theorem mapLabelToValue_last_match_witness:
  "[(''bug'', ''Bug''), (''feature'', ''Feature'')] \<noteq> ([] :: table) \<and>
   distinct (map fst [(''bug'', ''Bug''), (''feature'', ''Feature'')]) \<and>
   mapLabelToValue (example_issue 1 [''docs'', ''feature'', ''bug'', ''bug''])
      (Some [(''bug'', ''Bug''), (''feature'', ''Feature'')]) ''Story''
     = (''Feature'', example_issue 1 [''docs''])"
proof -
  have ne: "[(''bug'', ''Bug''), (''feature'', ''Feature'')] \<noteq> ([] :: table)"
    by simp
  have di: "distinct (map fst [(''bug'', ''Bug''), (''feature'', ''Feature'')])"
    by simp
  show ?thesis
    using mapLabelToValue_last_match [OF ne di,
        of "example_issue 1 [''docs'', ''feature'', ''bug'', ''bug'']" "''Story''"]
    by (simp add: last_match_def example_issue_def example_table_def)
qed

section \<open>Issue Mapper\<close>

lemma mdToWiki_returns:
  "\<exists>s. fst (mdToWiki conv md) = Inr s \<and> (conv md = Inr s \<or> (\<exists>e. conv md = Inl e) \<and> s = md)"
  by (cases "conv md") (simp_all add: mdToWiki_def)

lemma mapGithubCommentsToJiraComments_total:
  "\<exists>cs. mapGithubCommentsToJiraComments conv githubComments = Inr cs"
  unfolding mapGithubCommentsToJiraComments_def
proof (rule array_map_total)
  fix comment
  obtain s where "fst (mdToWiki conv (gc_body comment)) = Inr s"
    using mdToWiki_returns by blast
  then show "\<exists>y. and_then (fst (mdToWiki conv (gc_body comment)))
          (\<lambda>body. Inr \<lparr>jc_body = body, jc_author = gu_login (gc_user comment),
                jc_created = mapDate (gc_created_at comment)\<rparr>) = Inr y"
    by (simp add: and_then_def)
qed

lemma customFieldValue_total:
  "spec_ok spec \<Longrightarrow> \<exists>v. customFieldValue spec githubLabels = Inr v"
  by (auto simp: spec_ok_def customFieldValue_def split: option.splits)

lemma mapLabelsToCustomFields_total:
  assumes "cfg_customFields cfg = Some specs" and "list_all spec_ok specs"
  shows "\<exists>flds. mapLabelsToCustomFields cfg githubLabels = Inr flds"
proof -
  have "\<exists>flds. array_map (\<lambda>spec.
            and_then (customFieldValue spec githubLabels) (\<lambda>v.
              Inr \<lparr> jf_fieldName = fs_fieldName spec,
                    jf_fieldType = fs_fieldType spec,
                    jf_value = v \<rparr>)) specs = Inr flds"
  proof (rule array_map_total)
    fix spec
    assume "spec \<in> set specs"
    with assms(2) have "spec_ok spec" by (simp add: list_all_iff)
    then obtain v where "customFieldValue spec githubLabels = Inr v"
      using customFieldValue_total by blast
    then show "\<exists>y. and_then (customFieldValue spec githubLabels) (\<lambda>v.
              Inr \<lparr> jf_fieldName = fs_fieldName spec,
                    jf_fieldType = fs_fieldType spec,
                    jf_value = v \<rparr>) = Inr y"
      by (simp add: and_then_def)
  qed
  with assms(1) show ?thesis
    by (auto simp: mapLabelsToCustomFields_def)
qed

lemma mapGithubIssueToJiraIssue_Inr:
  assumes "mapGithubIssueToJiraIssue cfg conv issue issueComments = Inr (j, issue')"
  obtains userMap description customFieldValues comments where
    "cfg_userMap cfg = Some userMap"
    "fst (mdToWiki conv (gi_body issue)) = Inr description"
    "issue' = classified cfg issue"
    "mapLabelsToCustomFields cfg (gi_labels issue') = Inr customFieldValues"
    "(case issueComments of None \<Rightarrow> Inr []
      | Some cs \<Rightarrow> mapGithubCommentsToJiraComments conv cs) = Inr comments"
    "ji_key j = cfg_projectKey cfg @ ''-'' @ number_toString (gi_number issue)"
    "ji_status j = ''To Do''"
    "ji_resolution j = (if gi_state issue = Closed then Some ''Fixed'' else None)"
    "ji_reporter j = property userMap (gu_login (gi_user issue))"
    "ji_assignee j =
       (case gi_assignee issue of
          None \<Rightarrow> None
        | Some a \<Rightarrow> Some (js_or (property userMap (gu_login a)) (gu_login a)))"
    "ji_fixedVersions j = (case gi_milestone issue of None \<Rightarrow> [] | Some m \<Rightarrow> [gm_title m])"
    "ji_labels j = map gl_name (gi_labels issue')"
    "ji_customFieldValues j = customFieldValues"
    "ji_comments j = comments"
proof -
  obtain t i1 where c1: "mapLabelToValue issue (cfg_issueTypeMap cfg) (defaultIssueType cfg) = (t, i1)"
    by (cases "mapLabelToValue issue (cfg_issueTypeMap cfg) (defaultIssueType cfg)")
  obtain p i2 where c2: "mapLabelToValue i1 (cfg_priorityMap cfg) (defaultPriority cfg) = (p, i2)"
    by (cases "mapLabelToValue i1 (cfg_priorityMap cfg) (defaultPriority cfg)")
  have cl: "classified cfg issue = i2"
    by (simp add: classified_def c1 c2)
  from assms obtain userMap where um: "cfg_userMap cfg = Some userMap"
    by (auto simp: mapGithubIssueToJiraIssue_def split: option.splits)
  from assms obtain description customFieldValues comments where
    d: "fst (mdToWiki conv (gi_body issue)) = Inr description" and
    f: "mapLabelsToCustomFields cfg (gi_labels i2) = Inr customFieldValues" and
    c: "(case issueComments of None \<Rightarrow> Inr []
         | Some cs \<Rightarrow> mapGithubCommentsToJiraComments conv cs) = Inr comments" and
    i: "issue' = i2" and
    j: "j = \<lparr> ji_key = cfg_projectKey cfg @ ''-'' @ number_toString (gi_number issue),
                ji_status = ''To Do'',
                ji_resolution = (if gi_state issue = Closed then Some ''Fixed'' else None),
                ji_reporter = property userMap (gu_login (gi_user issue)),
                ji_assignee =
                  (case gi_assignee issue of
                     None \<Rightarrow> None
                   | Some a \<Rightarrow> Some (js_or (property userMap (gu_login a)) (gu_login a))),
                ji_fixedVersions =
                  (case gi_milestone issue of None \<Rightarrow> [] | Some m \<Rightarrow> [gm_title m]),
                ji_created = mapDate (gi_created_at issue),
                ji_updated = mapDate (gi_updated_at issue),
                ji_summary = gi_title issue,
                ji_description = description,
                ji_issueType = t,
                ji_priority = p,
                ji_labels = map gl_name (gi_labels i2),
                ji_customFieldValues = customFieldValues,
                ji_comments = comments \<rparr>"
    unfolding mapGithubIssueToJiraIssue_def
    by (simp add: um c1 c2 and_then_Inr_iff) blast
  show thesis
  proof (rule that [OF um d])
    show "issue' = classified cfg issue" by (simp add: i cl)
    show "mapLabelsToCustomFields cfg (gi_labels issue') = Inr customFieldValues"
      by (simp add: i f)
    show "(case issueComments of None \<Rightarrow> Inr []
         | Some cs \<Rightarrow> mapGithubCommentsToJiraComments conv cs) = Inr comments"
      by (rule c)
  qed (simp_all add: j i)
qed

lemma mapGithubIssueToJiraIssue_total:
  assumes "config_ok cfg"
  shows "\<exists>j issue'. mapGithubIssueToJiraIssue cfg conv issue issueComments = Inr (j, issue')"
proof -
  from assms obtain userMap specs where um: "cfg_userMap cfg = Some userMap"
    and cf: "cfg_customFields cfg = Some specs" and ok: "list_all spec_ok specs"
    by (auto simp: config_ok_def split: option.splits)
  obtain description where d: "fst (mdToWiki conv (gi_body issue)) = Inr description"
    using mdToWiki_returns by blast
  obtain t i1 where c1: "mapLabelToValue issue (cfg_issueTypeMap cfg) (defaultIssueType cfg) = (t, i1)"
    by (cases "mapLabelToValue issue (cfg_issueTypeMap cfg) (defaultIssueType cfg)")
  obtain p i2 where c2: "mapLabelToValue i1 (cfg_priorityMap cfg) (defaultPriority cfg) = (p, i2)"
    by (cases "mapLabelToValue i1 (cfg_priorityMap cfg) (defaultPriority cfg)")
  obtain flds where f: "mapLabelsToCustomFields cfg (gi_labels i2) = Inr flds"
    using mapLabelsToCustomFields_total [OF cf ok] by blast
  obtain comments where c: "(case issueComments of None \<Rightarrow> Inr []
      | Some cs \<Rightarrow> mapGithubCommentsToJiraComments conv cs) = Inr comments"
    using mapGithubCommentsToJiraComments_total by (cases issueComments) auto
  show ?thesis
    unfolding mapGithubIssueToJiraIssue_def
    by (simp add: um d c1 c2 f c and_then_def)
qed

text \<open>The issue mapper, run on an example issue.\<close>

lemma number_toString_42: "number_toString 42 = ''42''"
  by (simp add: number_toString.simps digit_def)

lemma example_issueType:
  "mapLabelToValue (example_issue 42 example_labels)
     (cfg_issueTypeMap example_config) (defaultIssueType example_config)
   = (''Story'', example_issue 42 [''team-backend infra'', ''urgent'', ''docs''])"
  by (simp add: mapLabelToValue_def Object_values_def example_table_def label_reducer_def
      example_issue_def example_config_def example_labels_def defaultIssueType_def)

lemma example_priority:
  "mapLabelToValue (example_issue 42 [''team-backend infra'', ''urgent'', ''docs''])
     (cfg_priorityMap example_config) (defaultPriority example_config)
   = (''High'', example_issue 42 [''team-backend infra'', ''docs''])"
  by (simp add: mapLabelToValue_def Object_values_def example_table_def label_reducer_def
      example_issue_def example_config_def example_labels_def defaultPriority_def)

lemma example_customFields:
  "mapLabelsToCustomFields example_config
     (gi_labels (example_issue 42 [''team-backend infra'', ''docs'']))
   = Inr [\<lparr> jf_fieldName = ''Team'', jf_fieldType = ''labels'',
            jf_value = [''backend_infra''] \<rparr>]"
  by (simp add: mapLabelsToCustomFields_def example_config_def example_issue_def customFieldValue_def and_then_def)

lemma example_eval:
  "mapGithubIssueToJiraIssue example_config example_converter
     (example_issue 42 example_labels) None
   = Inr (example_jira, example_issue 42 [''team-backend infra'', ''docs''])"
  unfolding mapGithubIssueToJiraIssue_def
  apply (simp only: example_issueType example_priority example_customFields prod.case)
  apply (simp add: example_config_def and_then_def mdToWiki_def
      example_converter_def number_toString_42 property_def js_or_def mapDate_def
      example_issue_def example_jira_def)
  done

section \<open>Runs over all issues\<close>

lemma example_config_ok: "config_ok example_config"
  by (simp add: config_ok_def example_config_def spec_ok_def)

lemma mapGithubIssuesToJiraIssues_Inr:
  assumes "mapGithubIssuesToJiraIssues cfg conv issues dict = Inr js"
  shows "list_all2 (\<lambda>issue j. \<exists>issue'.
            mapGithubIssueToJiraIssue cfg conv issue (dict (number_toString (gi_number issue)))
              = Inr (j, issue')) issues js"
proof -
  from assms have "list_all2 (\<lambda>issue j.
       and_then (mapGithubIssueToJiraIssue cfg conv issue (dict (number_toString (gi_number issue))))
         (\<lambda>r. Inr (fst r)) = Inr j) issues js"
    unfolding mapGithubIssuesToJiraIssues_def by (rule array_map_Inr)
  then show ?thesis
    by (rule list_all2_mono) (auto simp: and_then_Inr_iff)
qed

lemma mapGithubIssuesToJiraIssues_total:
  assumes "config_ok cfg"
  shows "\<exists>js. mapGithubIssuesToJiraIssues cfg conv issues dict = Inr js"
  unfolding mapGithubIssuesToJiraIssues_def
proof (rule array_map_total)
  fix issue
  obtain j issue' where
    "mapGithubIssueToJiraIssue cfg conv issue (dict (number_toString (gi_number issue)))
       = Inr (j, issue')"
    using mapGithubIssueToJiraIssue_total [OF assms] by blast
  then show "\<exists>y. and_then
      (mapGithubIssueToJiraIssue cfg conv issue (dict (number_toString (gi_number issue))))
      (\<lambda>r. Inr (fst r)) = Inr y"
    by (simp add: and_then_def)
qed

lemma key_inj:
  "inj (\<lambda>n. k @ ''-'' @ number_toString n)"
  by (rule injI) (simp add: number_toString_inj)

lemma number_toString_7: "number_toString 7 = ''7''"
  by (simp add: number_toString.simps digit_def)


lemma run_fixedVersions:
  assumes "mapGithubIssuesToJiraIssues cfg conv issues dict = Inr js"
  shows "map ji_fixedVersions js =
           map (\<lambda>issue. case gi_milestone issue of None \<Rightarrow> [] | Some m \<Rightarrow> [gm_title m]) issues"
proof -
  have "list_all2 (\<lambda>issue j. ji_fixedVersions j =
          (case gi_milestone issue of None \<Rightarrow> [] | Some m \<Rightarrow> [gm_title m])) issues js"
    using mapGithubIssuesToJiraIssues_Inr [OF assms]
    by (rule list_all2_mono) (auto elim: mapGithubIssueToJiraIssue_Inr)
  then show ?thesis
    by (induction issues js rule: list_all2_induct) simp_all
qed

text \<open>
  C3.  In a run that maps a list of source issues, the key of each target issue is the
  configured project key, a hyphen and the decimal issue number of the source issue at
  the same position; when the source numbers are pairwise distinct, so are the keys.
\<close>

theorem issue_keys:
  assumes "mapGithubIssuesToJiraIssues cfg conv issues dict = Inr js"
  shows "map ji_key js =
           map (\<lambda>issue. cfg_projectKey cfg @ ''-'' @ number_toString (gi_number issue)) issues \<and>
         (distinct (map gi_number issues) \<longrightarrow> distinct (map ji_key js))"
proof -
  have "list_all2 (\<lambda>issue j.
          ji_key j = cfg_projectKey cfg @ ''-'' @ number_toString (gi_number issue)) issues js"
    using mapGithubIssuesToJiraIssues_Inr [OF assms]
    by (rule list_all2_mono) (auto elim: mapGithubIssueToJiraIssue_Inr)
  then have keys: "map ji_key js =
      map (\<lambda>issue. cfg_projectKey cfg @ ''-'' @ number_toString (gi_number issue)) issues"
    by (induction issues js rule: list_all2_induct) simp_all
  have "distinct (map ji_key js)" if d: "distinct (map gi_number issues)"
  proof -
    have "map ji_key js =
        map (\<lambda>n. cfg_projectKey cfg @ ''-'' @ number_toString n) (map gi_number issues)"
      by (simp add: keys comp_def)
    moreover have "distinct (map (\<lambda>n. cfg_projectKey cfg @ ''-'' @ number_toString n)
        (map gi_number issues))"
      using d key_inj [of "cfg_projectKey cfg"]
      by (simp only: distinct_map) (blast intro: inj_on_subset)
    ultimately show ?thesis by simp
  qed
  with keys show ?thesis by blast
qed

text \<open>
  Two example issues, numbered 42 and 7, receive the keys \<open>PRJ-42\<close> and \<open>PRJ-7\<close>.
\<close>

theorem issue_keys_witness:
  "\<exists>js. mapGithubIssuesToJiraIssues example_config example_converter
          [example_issue 42 example_labels, example_issue 7 []] Map.empty = Inr js \<and>
        map ji_key js = [''PRJ-42'', ''PRJ-7''] \<and>
        distinct (map gi_number [example_issue 42 example_labels, example_issue 7 []]) \<and>
        distinct (map ji_key js)"
proof -
  obtain js where h: "mapGithubIssuesToJiraIssues example_config example_converter
          [example_issue 42 example_labels, example_issue 7 []] Map.empty = Inr js"
    using mapGithubIssuesToJiraIssues_total [OF example_config_ok] by blast
  have d: "distinct (map gi_number [example_issue 42 example_labels, example_issue 7 []])"
    by (simp add: example_issue_def)
  from issue_keys [OF h] d
  have "map ji_key js = [''PRJ-42'', ''PRJ-7''] \<and> distinct (map ji_key js)"
    by (simp add: example_issue_def example_config_def number_toString_42 number_toString_7)
  with h d show ?thesis by (intro exI [of _ js]) simp
qed

section \<open>Fields of a mapped issue\<close>

text \<open>
  C4.  Whenever the issue mapper returns a target issue, its status is the string
  \<open>To Do\<close>; its resolution is \<open>Fixed\<close> exactly when the source state is closed, and
  is null (\<open>None\<close>) otherwise.
\<close>

theorem status_and_resolution:
  assumes "mapGithubIssueToJiraIssue cfg conv issue issueComments = Inr (j, issue')"
  shows "ji_status j = ''To Do'' \<and>
         (ji_resolution j = Some ''Fixed'' \<longleftrightarrow> gi_state issue = Closed) \<and>
         (gi_state issue \<noteq> Closed \<longrightarrow> ji_resolution j = None)"
  using assms by (elim mapGithubIssueToJiraIssue_Inr) simp

text \<open>
  The closed example issue is resolved as \<open>Fixed\<close>; the same issue in state open has
  no resolution.
\<close>

theorem status_and_resolution_witness:
  "mapGithubIssueToJiraIssue example_config example_converter
     (example_issue 42 example_labels) None
     = Inr (example_jira, example_issue 42 [''team-backend infra'', ''docs'']) \<and>
   gi_state (example_issue 42 example_labels) = Closed \<and>
   ji_status example_jira = ''To Do'' \<and>
   ji_resolution example_jira = Some ''Fixed'' \<and>
   (\<exists>j issue'. mapGithubIssueToJiraIssue example_config example_converter
        ((example_issue 42 example_labels)\<lparr> gi_state := Open \<rparr>) None = Inr (j, issue') \<and>
      ji_status j = ''To Do'' \<and> ji_resolution j = None)"
proof -
  obtain j issue' where h: "mapGithubIssueToJiraIssue example_config example_converter
        ((example_issue 42 example_labels)\<lparr> gi_state := Open \<rparr>) None = Inr (j, issue')"
    using mapGithubIssueToJiraIssue_total [OF example_config_ok] by blast
  from status_and_resolution [OF h]
  have "ji_status j = ''To Do'' \<and> ji_resolution j = None"
    by (simp add: example_issue_def)
  with h status_and_resolution [OF example_eval] example_eval show ?thesis
    by (simp add: example_issue_def)
qed




text \<open>
  C10.  Whenever the issue mapper returns, the source issue is left as the two
  classifications (issue type, then priority) left it: custom-field mapping removes
  nothing more.  The \<open>labels\<close> field holds the names of exactly these remaining labels,
  and the custom field values are the result of the custom-field mapper on the same
  labels.
\<close>

theorem labels_snapshot:
  assumes "mapGithubIssueToJiraIssue cfg conv issue issueComments = Inr (j, issue')"
  shows "issue' = classified cfg issue \<and>
         ji_labels j = map gl_name (gi_labels (classified cfg issue)) \<and>
         mapLabelsToCustomFields cfg (gi_labels (classified cfg issue))
           = Inr (ji_customFieldValues j)"
  using assms by (elim mapGithubIssueToJiraIssue_Inr) simp

text \<open>
  For the example issue, \<open>feature\<close>, \<open>bug\<close> and \<open>urgent\<close> are consumed by the
  classifications; the two remaining labels are recorded and given to the custom-field
  mapper.
\<close>

theorem labels_snapshot_witness:
  "mapGithubIssueToJiraIssue example_config example_converter
     (example_issue 42 example_labels) None
     = Inr (example_jira, example_issue 42 [''team-backend infra'', ''docs'']) \<and>
   classified example_config (example_issue 42 example_labels)
     = example_issue 42 [''team-backend infra'', ''docs''] \<and>
   ji_labels example_jira = [''team-backend infra'', ''docs''] \<and>
   mapLabelsToCustomFields example_config
     (gi_labels (example_issue 42 [''team-backend infra'', ''docs'']))
     = Inr (ji_customFieldValues example_jira)"
proof -
  from labels_snapshot [OF example_eval]
  have "classified example_config (example_issue 42 example_labels)
          = example_issue 42 [''team-backend infra'', ''docs'']"
    and "mapLabelsToCustomFields example_config
           (gi_labels (classified example_config (example_issue 42 example_labels)))
          = Inr (ji_customFieldValues example_jira)"
    by simp_all
  moreover have "ji_labels example_jira = [''team-backend infra'', ''docs'']"
    by (simp add: example_jira_def)
  ultimately show ?thesis
    using example_eval by simp
qed

section \<open>Rich Text Converter\<close>

text \<open>
  C9.  For every converter and every input string, \<open>mdToWiki\<close> returns a value and
  never an exception: the converted markup with nothing logged when the conversion
  succeeds, and the input unchanged with one logged line when the conversion throws.
\<close>

theorem mdToWiki_total:
  "\<exists>s. fst (mdToWiki conv md) = Inr s \<and>
       (conv md = Inr s \<and> snd (mdToWiki conv md) = []
        \<or> (\<exists>e. conv md = Inl e) \<and> s = md \<and> snd (mdToWiki conv md) = [FailedToConvert md])"
  by (cases "conv md") (simp_all add: mdToWiki_def)

text \<open>
  The example converter throws on the empty string and succeeds on a heading.
\<close>

theorem mdToWiki_total_witness:
  "mdToWiki example_converter [] = (Inr [], [FailedToConvert []]) \<and>
   mdToWiki example_converter ''# Title'' = (Inr ''{noformat}# Title'', [])"
proof -
  have "example_converter [] = Inl ConversionError"
    and "example_converter ''# Title'' = Inr ''{noformat}# Title''"
    by (simp_all add: example_converter_def)
  with mdToWiki_total [of example_converter "[]"]
    mdToWiki_total [of example_converter "''# Title''"]
  show ?thesis by (auto simp: prod_eq_iff)
qed

section \<open>Custom Field Mapper\<close>

lemma foldl_snoc_map: "foldl (\<lambda>acc x. acc @ [g x]) a xs = a @ map g xs"
  by (induction xs arbitrary: a) simp_all

lemma customFieldValue_prefixes:
  assumes "fs_map spec = None" and "fs_prefixes spec = Some pfxs"
  shows "customFieldValue spec githubLabels
           = Inr (spec_prefix_values pfxs (map gl_name githubLabels))"
proof -
  have underscore: "js_join ''_'' (js_split (CHR '' '') s)
      = map (\<lambda>c. if c = CHR '' '' then CHR ''_'' else c) s" for s
    by (rule split_join_replaces)
  have keep: "list_ex (\<lambda>p. prefix p label) pfxs \<longleftrightarrow> (\<exists>p \<in> set pfxs. prefix p label)" for label
    by (simp add: list_ex_iff)
  show ?thesis
    unfolding customFieldValue_def spec_prefix_values_def
    by (simp add: assms foldl_snoc_map underscore keep)
qed

lemma mapLabelsToCustomFields_Inr:
  assumes "mapLabelsToCustomFields cfg githubLabels = Inr flds"
    and "cfg_customFields cfg = Some specs"
  shows "list_all2 (\<lambda>spec field.
           jf_fieldName field = fs_fieldName spec \<and> jf_fieldType field = fs_fieldType spec \<and>
           customFieldValue spec githubLabels = Inr (jf_value field)) specs flds"
proof (cases "specs = []")
  case True
  with assms show ?thesis by (simp add: mapLabelsToCustomFields_def)
next
  case False
  with assms have "array_map (\<lambda>spec.
                 and_then (customFieldValue spec githubLabels) (\<lambda>v.
                   Inr \<lparr> jf_fieldName = fs_fieldName spec,
                         jf_fieldType = fs_fieldType spec,
                         jf_value = v \<rparr>)) specs = Inr flds"
    by (simp add: mapLabelsToCustomFields_def)
  then have "list_all2 (\<lambda>spec field.
                 and_then (customFieldValue spec githubLabels) (\<lambda>v.
                   Inr \<lparr> jf_fieldName = fs_fieldName spec,
                         jf_fieldType = fs_fieldType spec,
                         jf_value = v \<rparr>) = Inr field) specs flds"
    by (rule array_map_Inr)
  then show ?thesis
    by (rule list_all2_mono) (auto simp: and_then_Inr_iff)
qed

text \<open>
  C6.  When the custom-field mapper returns, there is one target field per
  specification, in order; for a specification without a map and with prefixes, the
  value list is \<open>spec_prefix_values\<close> of the label names: the names that start with at
  least one prefix, in input order, each with every prefix replaced in turn by the
  empty string and then every space replaced by an underscore.
\<close>

theorem prefix_mode_values:
  assumes "mapLabelsToCustomFields cfg githubLabels = Inr flds"
    and "cfg_customFields cfg = Some specs"
    and "i < length specs"
    and "fs_map (specs ! i) = None"
    and "fs_prefixes (specs ! i) = Some pfxs"
  shows "length flds = length specs \<and>
         jf_fieldName (flds ! i) = fs_fieldName (specs ! i) \<and>
         jf_value (flds ! i) = spec_prefix_values pfxs (map gl_name githubLabels)"
proof -
  note corr = mapLabelsToCustomFields_Inr [OF assms(1,2)]
  from corr have len: "length flds = length specs"
    by (simp add: list_all2_lengthD)
  from list_all2_nthD [OF corr assms(3)]
  have "jf_fieldName (flds ! i) = fs_fieldName (specs ! i)"
    and "customFieldValue (specs ! i) githubLabels = Inr (jf_value (flds ! i))"
    by simp_all
  with customFieldValue_prefixes [OF assms(4,5), of githubLabels] len show ?thesis
    by simp
qed

text \<open>
  With the prefixes \<open>team-\<close>, the label \<open>team-backend infra\<close> yields
  \<open>backend_infra\<close> and the label \<open>docs\<close> yields nothing.
\<close>

theorem prefix_mode_values_witness:
  "mapLabelsToCustomFields example_config
     (gi_labels (example_issue 42 [''team-backend infra'', ''docs'']))
     = Inr [\<lparr> jf_fieldName = ''Team'', jf_fieldType = ''labels'',
              jf_value = [''backend_infra''] \<rparr>] \<and>
   spec_prefix_values [''team-''] [''team-backend infra'', ''docs''] = [''backend_infra'']"
proof -
  have c: "cfg_customFields example_config
      = Some [\<lparr> fs_fieldName = ''Team'', fs_fieldType = ''labels'',
                  fs_map = None, fs_prefixes = Some [''team-''] \<rparr>]"
    by (simp add: example_config_def)
  have "jf_value ([\<lparr> jf_fieldName = ''Team'', jf_fieldType = ''labels'',
              jf_value = [''backend_infra''] \<rparr>] ! 0)
      = spec_prefix_values [''team-'']
          (map gl_name (gi_labels (example_issue 42 [''team-backend infra'', ''docs''])))"
    using prefix_mode_values [OF example_customFields c, of 0 "[''team-'']"] by simp
  then have "spec_prefix_values [''team-''] [''team-backend infra'', ''docs''] = [''backend_infra'']"
    by (simp add: example_issue_def)
  with example_customFields show ?thesis by simp
qed

section \<open>Comment Grouper\<close>







section \<open>Project Assembler\<close>

lemma mapGithubDataToJiraData_Inr:
  assumes "mapGithubDataToJiraData cfg conv githubData = Inr out"
  obtains d js where
    "createCommentDictionary (gd_githubComments githubData) = Inr d"
    "mapGithubIssuesToJiraIssues cfg conv (gd_githubIssues githubData) d = Inr js"
    "out = \<lparr> jd_projects =
                  [\<lparr> jp_name = cfg_repo cfg,
                     jp_externalName = cfg_repo cfg,
                     jp_key = cfg_projectKey cfg,
                     jp_issues = js,
                     jp_versions = Set_spread (concat (map ji_fixedVersions js)) \<rparr>] \<rparr>"
  using assms unfolding mapGithubDataToJiraData_def by (auto simp: and_then_Inr_iff)

lemma mapGithubDataToJiraData_total:
  assumes "config_ok cfg" and "gd_githubComments githubData = Some cs"
  shows "\<exists>out. mapGithubDataToJiraData cfg conv githubData = Inr out"
proof -
  obtain d where d: "createCommentDictionary (Some cs) = Inr d"
    by (simp add: createCommentDictionary_def)
  obtain js where "mapGithubIssuesToJiraIssues cfg conv (gd_githubIssues githubData) d = Inr js"
    using mapGithubIssuesToJiraIssues_total [OF assms(1)] by blast
  with d assms(2) show ?thesis
    by (simp add: mapGithubDataToJiraData_def and_then_def)
qed

text \<open>
  C8.  Whenever the run returns, its output holds one project; the versions of the
  project are free of duplicates and are exactly the strings that occur in the
  \<open>fixedVersions\<close> of some issue of the project.
\<close>

theorem project_versions:
  assumes "mapGithubDataToJiraData cfg conv githubData = Inr out"
  shows "\<exists>p. jd_projects out = [p] \<and> distinct (jp_versions p) \<and>
             set (jp_versions p) = (\<Union>i \<in> set (jp_issues p). set (ji_fixedVersions i))"
proof -
  from assms obtain issues where
    "out = \<lparr> jd_projects =
                  [\<lparr> jp_name = cfg_repo cfg,
                     jp_externalName = cfg_repo cfg,
                     jp_key = cfg_projectKey cfg,
                     jp_issues = issues,
                     jp_versions = Set_spread (concat (map ji_fixedVersions issues)) \<rparr>] \<rparr>"
    unfolding mapGithubDataToJiraData_def by (auto simp: and_then_Inr_iff)
  then show ?thesis
    by (simp add: Set_spread_distinct Set_spread_set)
qed

text \<open>
  Four example issues with the milestones \<open>v1\<close>, \<open>v1\<close>, \<open>v2\<close> and none: the
  versions are \<open>v1\<close> and \<open>v2\<close>.
\<close>

theorem project_versions_witness:
  "\<exists>out p. mapGithubDataToJiraData example_config example_converter example_data = Inr out \<and>
      jd_projects out = [p] \<and>
      map ji_fixedVersions (jp_issues p) = [[''v1''], [''v1''], [''v2''], []] \<and>
      jp_versions p = [''v1'', ''v2''] \<and>
      distinct (jp_versions p) \<and>
      set (jp_versions p) = (\<Union>i \<in> set (jp_issues p). set (ji_fixedVersions i))"
proof -
  have c: "gd_githubComments example_data = Some example_comments"
    by (simp add: example_data_def)
  obtain out where h: "mapGithubDataToJiraData example_config example_converter example_data = Inr out"
    using mapGithubDataToJiraData_total [OF example_config_ok c] by blast
  from project_versions [OF h] obtain p where p: "jd_projects out = [p]"
    and dv: "distinct (jp_versions p)"
    and sv: "set (jp_versions p) = (\<Union>i \<in> set (jp_issues p). set (ji_fixedVersions i))"
    by blast
  from h obtain d js where js: "mapGithubIssuesToJiraIssues example_config example_converter
        (gd_githubIssues example_data) d = Inr js"
    and out: "jd_projects out = [\<lparr> jp_name = cfg_repo example_config,
                     jp_externalName = cfg_repo example_config,
                     jp_key = cfg_projectKey example_config,
                     jp_issues = js,
                     jp_versions = Set_spread (concat (map ji_fixedVersions js)) \<rparr>]"
    by (elim mapGithubDataToJiraData_Inr) simp
  have fv: "map ji_fixedVersions js = [[''v1''], [''v1''], [''v2''], []]"
    using run_fixedVersions [OF js] by (simp add: example_data_def example_issue_def)
  from p out have "jp_issues p = js" and "jp_versions p = Set_spread (concat (map ji_fixedVersions js))"
    by auto
  with fv have "map ji_fixedVersions (jp_issues p) = [[''v1''], [''v1''], [''v2''], []]"
    and "jp_versions p = [''v1'', ''v2'']"
    by (simp_all add: Set_spread_def)
  with h p dv sv show ?thesis
    by - (rule exI [of _ out], rule exI [of _ p], (intro conjI; assumption))
qed

section \<open>Absent collections\<close>

text \<open>
  C2.  When comments are not fetched the program passes \<open>null\<close> to
  \<open>createCommentDictionary\<close>, which calls \<open>reduce\<close> on it: the run ends with a
  \<open>TypeError\<close>, with or without issues, instead of giving every issue an empty
  comments list.  An absent custom field list raises as well (\<open>customFields.length\<close>);
  only the empty list yields an empty result.
\<close>

theorem absent_collections_abort:
  "mapGithubDataToJiraData example_config example_converter
     \<lparr> gd_githubIssues = [], gd_githubComments = None \<rparr> = Inl TypeError \<and>
   mapGithubDataToJiraData example_config example_converter
     \<lparr> gd_githubIssues = [example_issue 42 example_labels], gd_githubComments = None \<rparr>
     = Inl TypeError \<and>
   mapLabelsToCustomFields (example_config\<lparr> cfg_customFields := None \<rparr>) [] = Inl TypeError \<and>
   mapLabelsToCustomFields (example_config\<lparr> cfg_customFields := Some [] \<rparr>)
     [\<lparr> gl_name = ''docs'' \<rparr>] = Inr []"
  by (simp add: mapGithubDataToJiraData_def createCommentDictionary_def and_then_def
      mapLabelsToCustomFields_def)

end
